theory Spec2Isabelle
  imports Complex_Main "HOL-Library.AList"
begin

section \<open>Python values\<close>

text \<open>
  A Python \<open>dict\<close> keeps insertion order; it is modelled as an association list
  (first component the key) read with \<open>map_of\<close> and written with \<open>AList.update\<close>,
  which replaces the value of a key in place and appends a new key at the end, as
  assignment to a \<open>dict\<close> does. What \<open>json.loads\<close> returns is a \<open>json\<close> value.
  Python's \<open>None\<close> is \<open>JNull\<close>; JSON numbers are Python's unbounded ints
  (floats are left out of the model).
\<close>

datatype json =
    JNull
  | JBool bool
  | JNum int
  | JStr string
  | JArr "json list"
  | JObj "(string \<times> json) list"

type_synonym pydict = "(string \<times> json) list"

text \<open>Python truthiness (\<open>if x:\<close>, \<open>not x\<close>).\<close>

fun truthy :: "json \<Rightarrow> bool" where
  "truthy JNull = False"
| "truthy (JBool b) = b"
| "truthy (JNum n) = (n \<noteq> 0)"
| "truthy (JStr s) = (s \<noteq> [])"
| "truthy (JArr xs) = (xs \<noteq> [])"
| "truthy (JObj kvs) = (kvs \<noteq> [])"

text \<open>The exceptions that the modelled code can meet.\<close>

datatype exn =
    TypeError
  | AttributeError
  | ValueError
  | DatabaseError

text \<open>\<open>d.update(other)\<close>: the keys of \<open>other\<close>, in order.\<close>

definition dict_update :: "(string \<times> 'v) list \<Rightarrow> (string \<times> 'v) list \<Rightarrow> (string \<times> 'v) list" where
  "dict_update d other = fold (\<lambda>kv acc. AList.update (fst kv) (snd kv) acc) other d"

definition json_of_strs :: "string list \<Rightarrow> json" where
  "json_of_strs xs = JArr (map JStr xs)"

definition json_of_strdict :: "(string \<times> string) list \<Rightarrow> json" where
  "json_of_strdict d = JObj (map (\<lambda>kv. (fst kv, JStr (snd kv))) d)"

section \<open>Industry defaults (company\_manager.py)\<close>

text \<open>
  \<open>CompanyManager._get_default_products\<close>, \<open>_get_default_schema_mappings\<close> and
  \<open>_get_default_metrics\<close>. (An Isabelle name cannot start with an underscore, so the
  leading underscore of the private methods is dropped.) The argument \<open>industry\<close> is
  \<open>None\<close> or a string.
\<close>

definition industry_products :: "(string \<times> string list) list" where
  "industry_products =
    [(''Packaging'', [''Plastic Containers'', ''Paper Packaging'', ''Glass Bottles'',
                      ''Aluminum Cans'', ''Biodegradable Packaging'']),
     (''Manufacturing'', [''Electronics'', ''Automotive'', ''Machinery'', ''Textiles'']),
     (''Retail'', [''Apparel'', ''Electronics'', ''Home Goods'', ''Food'']),
     (''Food & Beverage'', [''Beverages'', ''Snacks'', ''Dairy'', ''Frozen Foods'']),
     (''Pharmaceutical'', [''Prescription Drugs'', ''Over-the-Counter'', ''Medical Devices'']),
     (''Technology'', [''Software'', ''Hardware'', ''Services'', ''Cloud Solutions''])]"

definition generic_products :: "string list" where
  "generic_products = [''Product A'', ''Product B'', ''Product C'']"

definition get_default_products :: "string option \<Rightarrow> string list" where
  "get_default_products industry =
    (case industry of
       None \<Rightarrow> generic_products
     | Some i \<Rightarrow> (case map_of industry_products i of
                   Some ps \<Rightarrow> ps
                 | None \<Rightarrow> generic_products))"

definition base_mappings :: "(string \<times> (string \<times> string) list) list" where
  "base_mappings =
    [(''sales'',
       [(''product_column'', ''product_line''),
        (''region_column'', ''region''),
        (''customer_column'', ''customer_segment''),
        (''date_column'', ''date''),
        (''quantity_column'', ''units_sold''),
        (''revenue_column'', ''revenue''),
        (''cost_column'', ''cost_of_goods'')]),
     (''esg'',
       [(''product_column'', ''product_line''),
        (''facility_column'', ''facility''),
        (''date_column'', ''date''),
        (''emissions_column'', ''emissions_kg_co2''),
        (''energy_column'', ''energy_consumption_kwh''),
        (''water_column'', ''water_usage_liters'')])]"

definition industry_mappings :: "(string \<times> (string \<times> (string \<times> string) list) list) list" where
  "industry_mappings =
    [(''Manufacturing'',
       [(''sales'',
          [(''product_column'', ''product_category''),
           (''region_column'', ''location''),
           (''customer_column'', ''client_type'')])]),
     (''Retail'',
       [(''sales'',
          [(''product_column'', ''category''),
           (''region_column'', ''store_location''),
           (''customer_column'', ''customer_type'')])])]"

text \<open>
  The merge loop: \<open>for data_type, type_mappings in industry_mappings[industry].items():
  if data_type in mappings: mappings[data_type].update(type_mappings)\<close>.
\<close>

definition merge_override ::
  "string \<times> (string \<times> string) list \<Rightarrow> (string \<times> (string \<times> string) list) list
     \<Rightarrow> (string \<times> (string \<times> string) list) list" where
  "merge_override ov mappings =
    (case map_of mappings (fst ov) of
       None \<Rightarrow> mappings
     | Some cur \<Rightarrow> AList.update (fst ov) (dict_update cur (snd ov)) mappings)"

definition get_default_schema_mappings ::
  "string option \<Rightarrow> (string \<times> (string \<times> string) list) list" where
  "get_default_schema_mappings industry =
    (case industry of
       None \<Rightarrow> base_mappings
     | Some i \<Rightarrow> (case map_of industry_mappings i of
                   None \<Rightarrow> base_mappings
                 | Some overrides \<Rightarrow> fold merge_override overrides base_mappings))"

definition base_metrics :: "(string \<times> string list) list" where
  "base_metrics =
    [(''financial'', [''revenue'', ''profit_margin'', ''cost_of_goods'']),
     (''esg'', [''emissions'', ''energy_consumption'', ''recycled_content'']),
     (''operational'', [''units_produced'', ''efficiency'', ''quality_score''])]"

definition industry_metrics :: "(string \<times> (string \<times> string list) list) list" where
  "industry_metrics =
    [(''Manufacturing'',
       [(''financial'', [''revenue'', ''profit_margin'', ''production_cost'']),
        (''esg'', [''emissions'', ''energy_consumption'', ''waste_generation'']),
        (''operational'', [''units_produced'', ''defect_rate'', ''efficiency''])]),
     (''Retail'',
       [(''financial'', [''sales'', ''profit_margin'', ''inventory_cost'']),
        (''esg'', [''emissions'', ''energy_consumption'', ''packaging_waste'']),
        (''operational'', [''units_sold'', ''inventory_turnover'', ''customer_satisfaction''])])]"

definition get_default_metrics :: "string option \<Rightarrow> (string \<times> string list) list" where
  "get_default_metrics industry =
    (case industry of
       None \<Rightarrow> base_metrics
     | Some i \<Rightarrow> (case map_of industry_metrics i of
                   Some m \<Rightarrow> m
                 | None \<Rightarrow> base_metrics))"

text \<open>The three values that \<open>_initialize_default_configs\<close> passes to \<open>update_company_config\<close>.\<close>

definition products_config :: "string option \<Rightarrow> pydict" where
  "products_config industry = [(''product_lines'', json_of_strs (get_default_products industry))]"

definition schema_config_of :: "(string \<times> (string \<times> string) list) list \<Rightarrow> pydict" where
  "schema_config_of mappings =
    [(''mappings'', JObj (map (\<lambda>kv. (fst kv, json_of_strdict (snd kv))) mappings))]"

definition metrics_config :: "string option \<Rightarrow> pydict" where
  "metrics_config industry = map (\<lambda>kv. (fst kv, json_of_strs (snd kv))) (get_default_metrics industry)"

definition default_configs :: "string option \<Rightarrow> (string \<times> pydict) list" where
  "default_configs industry =
    [(''products'', products_config industry),
     (''schema'', schema_config_of (get_default_schema_mappings industry)),
     (''metrics'', metrics_config industry)]"

section \<open>Data frames\<close>

text \<open>
  A pandas column (\<open>Series\<close>) by dtype: \<open>NumS\<close> is an int64 or float64 column
  (\<open>None\<close> is NaN), \<open>BoolS\<close> a bool column, \<open>DateS\<close> a datetime64 column of
  nanoseconds since the epoch (\<open>None\<close> is NaT), \<open>TextS\<close> an object column of strings
  (\<open>None\<close> is a missing cell). A \<open>DataFrame\<close> is the list of its labelled columns,
  in order; pandas allows a label to occur more than once.
\<close>

datatype series =
    NumS "real option list"
  | BoolS "bool list"
  | DateS "int option list"
  | TextS "string option list"

type_synonym frame = "(string \<times> series) list"

definition columns :: "frame \<Rightarrow> string list" where
  "columns df = map fst df"

fun series_len :: "series \<Rightarrow> nat" where
  "series_len (NumS xs) = length xs"
| "series_len (BoolS xs) = length xs"
| "series_len (DateS xs) = length xs"
| "series_len (TextS xs) = length xs"

text \<open>\<open>len(df)\<close>: the number of rows.\<close>

definition nrows :: "frame \<Rightarrow> nat" where
  "nrows df = (case df of [] \<Rightarrow> 0 | c # _ \<Rightarrow> series_len (snd c))"

section \<open>The store and the cached connection (data\_connector.py)\<close>

text \<open>
  The DuckDB database holds the table \<open>companies\<close>, the table \<open>company_configs\<close>
  with primary key \<open>(company_id, config_type)\<close>, and the staging tables, each the
  list of the frames written to it. Column \<open>config_data\<close> holds \<open>json.dumps\<close> of a
  \<open>Dict\<close> and is read back with \<open>json.loads\<close>; both are the standard library's,
  inverse to each other on such values, so the column is modelled as holding the
  dict itself. \<open>online\<close> is false when the database cannot be reached: every
  statement then raises.

  \<open>DuckDBConnection.query\<close> wraps the execution of a statement in Streamlit's
  \<open>cache_data\<close>, which memoises on the statement text and its parameters: \<open>cache\<close>
  holds the entries that have not expired yet (the ttl is 3600 seconds). A statement
  found there is not executed again.
\<close>

record company =
  c_id :: string
  c_name :: string
  c_industry :: string
  c_description :: string
  c_settings :: pydict
  c_is_active :: bool

datatype query =
    InsertCompany string string string string pydict
  | UpsertConfig string string pydict
  | SelectConfig string string

datatype result =
    Count nat
  | ConfigRows "pydict list"

record store =
  online :: bool
  companies :: "company list"
  company_configs :: "string \<times> string \<rightharpoonup> pydict"
  tables :: "string \<rightharpoonup> frame list"
  cache :: "query \<rightharpoonup> result"

text \<open>\<open>cursor.execute(query, params)\<close> followed by \<open>cursor.df()\<close>.\<close>

definition execute :: "query \<Rightarrow> store \<Rightarrow> exn + (result \<times> store)" where
  "execute q st =
    (if \<not> online st then Inl DatabaseError
     else (case q of
        InsertCompany i n ind d s \<Rightarrow>
          if i \<in> set (map c_id (companies st)) then Inl DatabaseError
          else Inr (Count 1,
                 st\<lparr>companies := companies st @
                    [\<lparr>c_id = i, c_name = n, c_industry = ind, c_description = d,
                      c_settings = s, c_is_active = True\<rparr>]\<rparr>)
      | UpsertConfig i k v \<Rightarrow>
          Inr (Count 1, st\<lparr>company_configs := (company_configs st)((i, k) \<mapsto> v)\<rparr>)
      | SelectConfig i k \<Rightarrow>
          Inr (ConfigRows (case company_configs st (i, k) of None \<Rightarrow> [] | Some v \<Rightarrow> [v]), st)))"

text \<open>\<open>DuckDBConnection.query\<close>: a hit returns the stored result; a miss executes
  the statement and stores its result (nothing is stored when it raises).\<close>

definition connector_query :: "query \<Rightarrow> store \<Rightarrow> exn + (result \<times> store)" where
  "connector_query q st =
    (case cache st q of
       Some r \<Rightarrow> Inr (r, st)
     | None \<Rightarrow>
        (case execute q st of
           Inl e \<Rightarrow> Inl e
         | Inr (r, st') \<Rightarrow> Inr (r, st'\<lparr>cache := (cache st')(q \<mapsto> r)\<rparr>)))"

section \<open>The tenant registry (company\_manager.py)\<close>

text \<open>\<open>get_company_config\<close>: every exception is caught and gives \<open>None\<close>; so does an
  empty result. A result without column \<open>config_data\<close> raises \<open>KeyError\<close> inside the
  \<open>try\<close>.\<close>

definition get_company_config :: "store \<Rightarrow> string \<Rightarrow> string \<Rightarrow> pydict option \<times> store" where
  "get_company_config st company_id config_type =
    (case connector_query (SelectConfig company_id config_type) st of
       Inl e \<Rightarrow> (None, st)
     | Inr (r, st') \<Rightarrow>
        (case r of
           ConfigRows (v # rest) \<Rightarrow> (Some v, st')
         | ConfigRows [] \<Rightarrow> (None, st')
         | Count n \<Rightarrow> (None, st')))"

definition update_company_config :: "store \<Rightarrow> string \<Rightarrow> string \<Rightarrow> pydict \<Rightarrow> bool \<times> store" where
  "update_company_config st company_id config_type config_data =
    (case connector_query (UpsertConfig company_id config_type config_data) st of
       Inl e \<Rightarrow> (False, st)
     | Inr (r, st') \<Rightarrow> (True, st'))"

definition initialize_default_configs :: "store \<Rightarrow> string \<Rightarrow> string option \<Rightarrow> store" where
  "initialize_default_configs st company_id industry =
    fold (\<lambda>cfg s. snd (update_company_config s company_id (fst cfg) (snd cfg)))
      (default_configs industry) st"

text \<open>\<open>create_company\<close>; \<open>industry or ""\<close>, \<open>description or ""\<close> and
  \<open>settings or {}\<close> are written out.\<close>

definition or_empty :: "'a list option \<Rightarrow> 'a list" where
  "or_empty x = (case x of None \<Rightarrow> [] | Some v \<Rightarrow> v)"

definition create_company ::
  "store \<Rightarrow> string \<Rightarrow> string \<Rightarrow> string option \<Rightarrow> string option \<Rightarrow> pydict option \<Rightarrow> bool \<times> store" where
  "create_company st company_id company_name industry description settings =
    (case connector_query
            (InsertCompany company_id company_name (or_empty industry) (or_empty description)
               (or_empty settings)) st of
       Inl e \<Rightarrow> (False, st)
     | Inr (r, st') \<Rightarrow> (True, initialize_default_configs st' company_id industry))"

text \<open>\<open>x.get(key, default)\<close> and \<open>x.items()\<close> on a loaded value: only a dict has
  these methods.\<close>

fun get_method :: "json \<Rightarrow> string \<Rightarrow> json \<Rightarrow> exn + json" where
  "get_method (JObj m) k dflt = Inr (case map_of m k of Some v \<Rightarrow> v | None \<Rightarrow> dflt)"
| "get_method v k dflt = Inl AttributeError"

fun items_method :: "json \<Rightarrow> exn + (string \<times> json) list" where
  "items_method (JObj m) = Inr m"
| "items_method v = Inl AttributeError"

definition get_company_schema_mapping :: "store \<Rightarrow> string \<Rightarrow> string \<Rightarrow> (exn + json) \<times> store" where
  "get_company_schema_mapping st company_id data_type =
    (case get_company_config st company_id ''schema'' of
       (None, st') \<Rightarrow> (Inr (JObj []), st')
     | (Some schema_config, st') \<Rightarrow>
        (if schema_config \<noteq> [] \<and> ''mappings'' \<in> set (map fst schema_config)
         then (case map_of schema_config ''mappings'' of
                 Some m \<Rightarrow> (get_method m data_type (JObj []), st')
               | None \<Rightarrow> (Inr (JObj []), st'))
         else (Inr (JObj []), st')))"

text \<open>
  The loop of \<open>transform_company_data\<close> that fills the dict \<open>column_mapping\<close>.
  \<open>company_col in df.columns\<close> hashes its left operand: a list or a dict raises
  \<open>TypeError\<close>; \<open>None\<close>, a bool or a number is hashable and is no label of the frame.
\<close>

fun build_column_mapping ::
  "string list \<Rightarrow> (string \<times> json) list \<Rightarrow> (string \<times> string) list \<Rightarrow> exn + (string \<times> string) list" where
  "build_column_mapping cols [] acc = Inr acc"
| "build_column_mapping cols ((standard_col, company_col) # rest) acc =
    (case company_col of
       JStr c \<Rightarrow>
         build_column_mapping cols rest
           (if c \<in> set cols \<and> standard_col \<noteq> c then AList.update c standard_col acc else acc)
     | JArr xs \<Rightarrow> Inl TypeError
     | JObj kvs \<Rightarrow> Inl TypeError
     | JNull \<Rightarrow> build_column_mapping cols rest acc
     | JBool b \<Rightarrow> build_column_mapping cols rest acc
     | JNum n \<Rightarrow> build_column_mapping cols rest acc)"

text \<open>\<open>df.rename(columns=column_mapping)\<close>: every label found in the dict is replaced.\<close>

definition rename_columns :: "(string \<times> string) list \<Rightarrow> frame \<Rightarrow> frame" where
  "rename_columns column_mapping df =
    map (\<lambda>c. (case map_of column_mapping (fst c) of Some n \<Rightarrow> n | None \<Rightarrow> fst c, snd c)) df"

text \<open>\<open>df['company_id'] = company_id\<close>: a new last column, the same string in every row.\<close>

definition add_company_id :: "frame \<Rightarrow> string \<Rightarrow> frame" where
  "add_company_id df company_id =
    (if ''company_id'' \<notin> set (columns df)
     then df @ [(''company_id'', TextS (replicate (nrows df) (Some company_id)))]
     else df)"

definition transform_company_data ::
  "store \<Rightarrow> frame \<Rightarrow> string \<Rightarrow> string \<Rightarrow> (exn + frame) \<times> store" where
  "transform_company_data st df company_id data_type =
    (case get_company_schema_mapping st company_id data_type of
       (Inl e, st') \<Rightarrow> (Inl e, st')
     | (Inr mapping, st') \<Rightarrow>
        (if \<not> truthy mapping then (Inr df, st')
         else (case items_method mapping of
                 Inl e \<Rightarrow> (Inl e, st')
               | Inr items \<Rightarrow>
                  (case build_column_mapping (columns df) items [] of
                     Inl e \<Rightarrow> (Inl e, st')
                   | Inr column_mapping \<Rightarrow>
                      (Inr (add_company_id
                              (if column_mapping \<noteq> [] then rename_columns column_mapping df else df)
                              company_id), st')))))"

section \<open>The validator (data\_uploader.py)\<close>

text \<open>
  \<open>df[col]\<close> is a column when the label occurs once and a sub-frame when it occurs
  several times; \<open>col in df.columns\<close> holds in both cases.
\<close>

datatype col_lookup =
    Absent
  | Single series
  | Multiple "series list"

definition getcol :: "frame \<Rightarrow> string \<Rightarrow> col_lookup" where
  "getcol df col =
    (case filter (\<lambda>c. fst c = col) df of
       [] \<Rightarrow> Absent
     | [c] \<Rightarrow> Single (snd c)
     | c # d # rest \<Rightarrow> Multiple (map snd (c # d # rest)))"

text \<open>
  The messages appended to \<open>errors\<close>, one constructor per format string:
  \<open>"Missing required columns: {missing_columns}"\<close>, \<open>"Column {col} should be a valid date"\<close>,
  \<open>"Column {col} should be numeric"\<close>, \<open>"Column {col} contains negative values"\<close>,
  \<open>"Dates are outside allowed range (2020-2030)"\<close>, \<open>"Invalid date format in date column"\<close>,
  \<open>"Column {col} contains values outside 0-100 range"\<close>.
\<close>

datatype verror =
    Missing_required_columns "string list"
  | Should_be_valid_date string
  | Should_be_numeric string
  | Contains_negative_values string
  | Dates_outside_allowed_range
  | Invalid_date_format
  | Outside_0_100_range string

record validation_result =
  valid :: bool
  errors :: "verror list"

definition required_columns :: "(string \<times> string list) list" where
  "required_columns =
    [(''sales'', [''date'', ''product_line'', ''units_sold'', ''revenue'']),
     (''esg'', [''date'', ''facility'', ''emissions_kg_co2'', ''energy_consumption_kwh'']),
     (''supply_chain'', [''date'', ''supplier'', ''order_quantity'', ''order_value''])]"

definition get_required_columns :: "string \<Rightarrow> string list" where
  "get_required_columns data_type =
    (case map_of required_columns data_type of Some cs \<Rightarrow> cs | None \<Rightarrow> [])"

datatype expected_type = Datetime | Numeric

definition type_validations :: "(string \<times> (string \<times> expected_type) list) list" where
  "type_validations =
    [(''sales'', [(''date'', Datetime), (''units_sold'', Numeric), (''revenue'', Numeric)]),
     (''esg'', [(''date'', Datetime), (''emissions_kg_co2'', Numeric),
                (''energy_consumption_kwh'', Numeric)]),
     (''supply_chain'', [(''date'', Datetime), (''order_quantity'', Numeric),
                         (''order_value'', Numeric)])]"

text \<open>\<open>pd.api.types.is_numeric_dtype\<close>: int, float and bool columns; never a sub-frame.\<close>

fun is_numeric_dtype :: "col_lookup \<Rightarrow> bool" where
  "is_numeric_dtype (Single (NumS xs)) = True"
| "is_numeric_dtype (Single (BoolS xs)) = True"
| "is_numeric_dtype (Single (DateS xs)) = False"
| "is_numeric_dtype (Single (TextS xs)) = False"
| "is_numeric_dtype (Multiple ss) = False"
| "is_numeric_dtype Absent = False"

text \<open>
  \<open>pd.to_datetime\<close> is pandas's parser: on a column it is the parameter \<open>to_dt\<close>, which
  gives the parsed timestamps or \<open>None\<close> when it raises. On a sub-frame with a repeated
  label it raises.
\<close>

fun to_datetime :: "(series \<Rightarrow> int option list option) \<Rightarrow> col_lookup \<Rightarrow> int option list option" where
  "to_datetime to_dt (Single s) = to_dt s"
| "to_datetime to_dt (Multiple ss) = None"
| "to_datetime to_dt Absent = None"

definition check_type ::
  "(series \<Rightarrow> int option list option) \<Rightarrow> frame \<Rightarrow> string \<times> expected_type \<Rightarrow> verror list" where
  "check_type to_dt df v =
    (if fst v \<in> set (columns df)
     then (case snd v of
             Datetime \<Rightarrow>
               (case to_datetime to_dt (getcol df (fst v)) of
                  None \<Rightarrow> [Should_be_valid_date (fst v)]
                | Some ds \<Rightarrow> [])
           | Numeric \<Rightarrow>
               (if \<not> is_numeric_dtype (getcol df (fst v)) then [Should_be_numeric (fst v)] else []))
     else [])"

definition validate_data_types ::
  "(series \<Rightarrow> int option list option) \<Rightarrow> frame \<Rightarrow> string \<Rightarrow> verror list" where
  "validate_data_types to_dt df data_type =
    concat (map (check_type to_dt df)
      (case map_of type_validations data_type of Some vs \<Rightarrow> vs | None \<Rightarrow> []))"

text \<open>
  \<open>(df[col] < 0).any()\<close> and \<open>(df[col] > 100).any()\<close>, as the condition of an \<open>if\<close>.
  A NaN compares false; a bool counts as 0 or 1; comparing a string or a datetime
  column with a number raises \<open>TypeError\<close> (a missing cell of a text column compares
  false); on a sub-frame \<open>any()\<close> gives one bool per column, whose truth value raises
  \<open>ValueError\<close>.
\<close>

fun series_any :: "(real \<Rightarrow> bool) \<Rightarrow> series \<Rightarrow> exn + bool" where
  "series_any p (NumS xs) = Inr (list_ex (\<lambda>x. case x of Some v \<Rightarrow> p v | None \<Rightarrow> False) xs)"
| "series_any p (BoolS xs) = Inr (list_ex (\<lambda>b. p (if b then 1 else 0)) xs)"
| "series_any p (DateS xs) = Inl TypeError"
| "series_any p (TextS xs) = (if list_ex (\<lambda>x. x \<noteq> None) xs then Inl TypeError else Inr False)"

fun compare_any :: "(real \<Rightarrow> bool) \<Rightarrow> col_lookup \<Rightarrow> exn + bool" where
  "compare_any p (Single s) = series_any p s"
| "compare_any p (Multiple ss) =
    (if list_ex (\<lambda>s. series_any p s = Inl TypeError) ss then Inl TypeError else Inl ValueError)"
| "compare_any p Absent = Inr False"

definition positive_columns :: "(string \<times> string list) list" where
  "positive_columns =
    [(''sales'', [''units_sold'', ''revenue'', ''cost_of_goods'']),
     (''esg'', [''emissions_kg_co2'', ''energy_consumption_kwh'', ''water_usage_liters'']),
     (''supply_chain'', [''order_quantity'', ''order_value''])]"

definition percentage_columns :: "(string \<times> string list) list" where
  "percentage_columns = [(''esg'', [''recycled_material_pct'', ''renewable_energy_pct''])]"

text \<open>The loop over the non-negative columns; an exception leaves the loop and the method.\<close>

fun check_positive :: "frame \<Rightarrow> string list \<Rightarrow> exn + verror list" where
  "check_positive df [] = Inr []"
| "check_positive df (col # cols) =
    (if col \<in> set (columns df)
     then (case compare_any (\<lambda>v. v < 0) (getcol df col) of
             Inl e \<Rightarrow> Inl e
           | Inr b \<Rightarrow>
              (case check_positive df cols of
                 Inl e \<Rightarrow> Inl e
               | Inr es \<Rightarrow> Inr ((if b then [Contains_negative_values col] else []) @ es)))
     else check_positive df cols)"

text \<open>The loop over the percentage columns; \<open>or\<close> evaluates its right operand only when
  the left one is false.\<close>

fun check_percentage :: "frame \<Rightarrow> string list \<Rightarrow> exn + verror list" where
  "check_percentage df [] = Inr []"
| "check_percentage df (col # cols) =
    (if col \<in> set (columns df)
     then (case compare_any (\<lambda>v. v < 0) (getcol df col) of
             Inl e \<Rightarrow> Inl e
           | Inr lo \<Rightarrow>
              (case (if lo then Inr True else compare_any (\<lambda>v. 100 < v) (getcol df col)) of
                 Inl e \<Rightarrow> Inl e
               | Inr b \<Rightarrow>
                  (case check_percentage df cols of
                     Inl e \<Rightarrow> Inl e
                   | Inr es \<Rightarrow> Inr ((if b then [Outside_0_100_range col] else []) @ es))))
     else check_percentage df cols)"

text \<open>
  Timestamps are nanoseconds since 1970-01-01 00:00. \<open>pd.to_datetime('2020-01-01')\<close> and
  \<open>pd.to_datetime('2030-12-31')\<close> are the midnights that begin these days.
\<close>

definition days_from_civil :: "int \<Rightarrow> int \<Rightarrow> int \<Rightarrow> int" where
  "days_from_civil y m d =
    (let y' = (if m \<le> 2 then y - 1 else y);
         era = y' div 400;
         yoe = y' - era * 400;
         doy = (153 * (if 2 < m then m - 3 else m + 9) + 2) div 5 + d - 1;
         doe = yoe * 365 + yoe div 4 - yoe div 100 + doy
     in era * 146097 + doe - 719468)"

definition midnight :: "int \<Rightarrow> int \<Rightarrow> int \<Rightarrow> int" where
  "midnight y m d = days_from_civil y m d * 86400000000000"

definition min_date :: int where
  "min_date = midnight 2020 1 1"

definition max_date :: int where
  "max_date = midnight 2030 12 31"

text \<open>\<open>(dates < min_date).any() or (dates > max_date).any()\<close>; NaT compares false.
  (Timestamps carry no time zone in the model.)\<close>

definition out_of_range :: "int option list \<Rightarrow> bool" where
  "out_of_range dates =
    (list_ex (\<lambda>x. case x of Some t \<Rightarrow> t < min_date | None \<Rightarrow> False) dates
     \<or> list_ex (\<lambda>x. case x of Some t \<Rightarrow> max_date < t | None \<Rightarrow> False) dates)"

definition check_date_range ::
  "(series \<Rightarrow> int option list option) \<Rightarrow> frame \<Rightarrow> verror list" where
  "check_date_range to_dt df =
    (if ''date'' \<in> set (columns df)
     then (case to_datetime to_dt (getcol df ''date'') of
             None \<Rightarrow> [Invalid_date_format]
           | Some dates \<Rightarrow> (if out_of_range dates then [Dates_outside_allowed_range] else []))
     else [])"

definition lookup_list :: "(string \<times> string list) list \<Rightarrow> string \<Rightarrow> string list" where
  "lookup_list table data_type = (case map_of table data_type of Some cs \<Rightarrow> cs | None \<Rightarrow> [])"

definition validate_business_rules ::
  "(series \<Rightarrow> int option list option) \<Rightarrow> frame \<Rightarrow> string \<Rightarrow> exn + verror list" where
  "validate_business_rules to_dt df data_type =
    (case check_positive df (lookup_list positive_columns data_type) of
       Inl e \<Rightarrow> Inl e
     | Inr neg \<Rightarrow>
        (case check_percentage df (lookup_list percentage_columns data_type) of
           Inl e \<Rightarrow> Inl e
         | Inr pct \<Rightarrow> Inr (neg @ check_date_range to_dt df @ pct)))"

definition get_default_schema :: "string \<Rightarrow> json" where
  "get_default_schema data_type =
    (case map_of
       [(''sales'',
          [(''product_column'', ''product_line''),
           (''region_column'', ''region''),
           (''customer_column'', ''customer_segment''),
           (''date_column'', ''date''),
           (''quantity_column'', ''units_sold''),
           (''revenue_column'', ''revenue''),
           (''cost_column'', ''cost_of_goods'')]),
        (''esg'',
          [(''product_column'', ''product_line''),
           (''facility_column'', ''facility''),
           (''date_column'', ''date''),
           (''emissions_column'', ''emissions_kg_co2''),
           (''energy_column'', ''energy_consumption_kwh''),
           (''water_column'', ''water_usage_liters'')]),
        (''supply_chain'',
          [(''supplier_column'', ''supplier''),
           (''date_column'', ''date''),
           (''quantity_column'', ''order_quantity''),
           (''value_column'', ''order_value'')])] data_type of
       Some d \<Rightarrow> json_of_strdict d
     | None \<Rightarrow> JObj [])"

text \<open>
  The first lines of \<open>validate_data\<close>: the tenant's schema is looked up (and not used
  afterwards). \<open>schema_config['mappings'].get(data_type, {})\<close> raises when the member
  is not a dict.
\<close>

definition schema_for_validation :: "pydict option \<Rightarrow> string \<Rightarrow> exn + json" where
  "schema_for_validation schema_config data_type =
    (case schema_config of
       None \<Rightarrow> Inr (get_default_schema data_type)
     | Some sc \<Rightarrow>
        (if sc = [] \<or> ''mappings'' \<notin> set (map fst sc) then Inr (get_default_schema data_type)
         else (case map_of sc ''mappings'' of
                 Some m \<Rightarrow> get_method m data_type (JObj [])
               | None \<Rightarrow> Inr (get_default_schema data_type))))"

definition missing_columns :: "frame \<Rightarrow> string \<Rightarrow> string list" where
  "missing_columns df data_type =
    filter (\<lambda>col. col \<notin> set (columns df)) (get_required_columns data_type)"

text \<open>The rest of \<open>validate_data\<close>: the three checks in order, all errors kept. An
  exception of the business rules leaves \<open>validate_data\<close>, which has no handler.\<close>

definition collect_errors ::
  "(series \<Rightarrow> int option list option) \<Rightarrow> frame \<Rightarrow> string \<Rightarrow> exn + validation_result" where
  "collect_errors to_dt df data_type =
    (let missing = missing_columns df data_type;
         type_errors = validate_data_types to_dt df data_type
     in (case validate_business_rules to_dt df data_type of
           Inl e \<Rightarrow> Inl e
         | Inr rule_errors \<Rightarrow>
            (let es = (if missing \<noteq> [] then [Missing_required_columns missing] else [])
                      @ type_errors @ rule_errors
             in Inr \<lparr>valid = (length es = 0), errors = es\<rparr>)))"

definition validate_data ::
  "(series \<Rightarrow> int option list option) \<Rightarrow> store \<Rightarrow> frame \<Rightarrow> string \<Rightarrow> string
     \<Rightarrow> (exn + validation_result) \<times> store" where
  "validate_data to_dt st df company_id data_type =
    (case get_company_config st company_id ''schema'' of
       (schema_config, st') \<Rightarrow>
        (case schema_for_validation schema_config data_type of
           Inl e \<Rightarrow> (Inl e, st')
         | Inr schema \<Rightarrow> (collect_errors to_dt df data_type, st')))"

section \<open>Upload (data\_uploader.py)\<close>








section \<open>Initial state and the notions used in the properties\<close>

text \<open>The store after \<open>initialize_company_tables\<close> on a new database, nothing cached.\<close>

definition empty_store :: store where
  "empty_store =
    \<lparr>online = True, companies = [], company_configs = Map.empty, tables = Map.empty,
     cache = Map.empty\<rparr>"

text \<open>An instance of \<open>pd.to_datetime\<close> for the examples: a datetime column is returned
  as it is, any other column is refused.\<close>

definition datetime_only :: "series \<Rightarrow> int option list option" where
  "datetime_only s = (case s of DateS ds \<Rightarrow> Some ds | NumS xs \<Rightarrow> None | BoolS bs \<Rightarrow> None | TextS ts \<Rightarrow> None)"

text \<open>
  A stored schema config has the documented shape when its member \<open>mappings\<close>, if
  there is one, is a dict.
\<close>

definition well_shaped :: "pydict option \<Rightarrow> bool" where
  "well_shaped schema_config =
    (case schema_config of
       None \<Rightarrow> True
     | Some sc \<Rightarrow>
        (case map_of sc ''mappings'' of
           None \<Rightarrow> True
         | Some (JObj m) \<Rightarrow> True
         | Some v \<Rightarrow> False))"

text \<open>
  The tenant's mapping for a category is empty or absent: no schema config, no member
  \<open>mappings\<close>, no entry for the category there, or an empty one.
\<close>

definition mapping_empty_or_absent :: "pydict option \<Rightarrow> string \<Rightarrow> bool" where
  "mapping_empty_or_absent schema_config data_type =
    (case schema_config of
       None \<Rightarrow> True
     | Some sc \<Rightarrow>
        (case map_of sc ''mappings'' of
           None \<Rightarrow> True
         | Some (JObj m) \<Rightarrow> (case map_of m data_type of None \<Rightarrow> True | Some v \<Rightarrow> \<not> truthy v)
         | Some v \<Rightarrow> False))"

text \<open>A column that can be compared with a number: numeric or bool, or text with
  missing cells only.\<close>

fun number_like :: "series \<Rightarrow> bool" where
  "number_like (NumS xs) = True"
| "number_like (BoolS xs) = True"
| "number_like (DateS xs) = False"
| "number_like (TextS xs) = (\<not> list_ex (\<lambda>x. x \<noteq> None) xs)"

text \<open>
  The comparisons of the business rules are defined on a frame: each non-negative or
  percentage column of the category that the frame has occurs once and is
  \<open>number_like\<close>.
\<close>

definition comparable_col :: "frame \<Rightarrow> string \<Rightarrow> bool" where
  "comparable_col df col =
    (case getcol df col of
       Absent \<Rightarrow> True
     | Single s \<Rightarrow> number_like s
     | Multiple ss \<Rightarrow> False)"

definition comparable :: "frame \<Rightarrow> string \<Rightarrow> bool" where
  "comparable df data_type =
    list_all (comparable_col df)
      (lookup_list positive_columns data_type @ lookup_list percentage_columns data_type)"



text \<open>A mapping with an entry that gives column \<open>company_id\<close> another name.\<close>

definition renames_company_id :: "json \<Rightarrow> bool" where
  "renames_company_id mapping =
    (case mapping of
       JObj m \<Rightarrow> list_ex (\<lambda>kv. snd kv = JStr ''company_id'' \<and> fst kv \<noteq> ''company_id'') m
     | JNull \<Rightarrow> False | JBool b \<Rightarrow> False | JNum n \<Rightarrow> False | JStr s \<Rightarrow> False
     | JArr xs \<Rightarrow> False)"

text \<open>The contribution of one non-negative column to the error list.\<close>

definition negative_error :: "frame \<Rightarrow> string \<Rightarrow> verror list" where
  "negative_error df col =
    (if compare_any (\<lambda>v. v < 0) (getcol df col) = Inr True then [Contains_negative_values col] else [])"





section \<open>Evaluation and frame lemmas\<close>

lemmas registry_defs =
  transform_company_data_def get_company_schema_mapping_def get_company_config_def
  connector_query_def execute_def create_company_def empty_store_def
  initialize_default_configs_def default_configs_def update_company_config_def or_empty_def
  schema_config_of_def get_default_schema_mappings_def industry_mappings_def base_mappings_def
  merge_override_def dict_update_def json_of_strdict_def json_of_strs_def products_config_def
  metrics_config_def get_default_products_def industry_products_def generic_products_def
  get_default_metrics_def industry_metrics_def base_metrics_def
  rename_columns_def add_company_id_def columns_def nrows_def




lemma get_company_config_miss:
  assumes "online st" and "cache st (SelectConfig c k) = None"
  shows "fst (get_company_config st c k) = company_configs st (c, k)"
  using assms
  by (simp add: get_company_config_def connector_query_def execute_def split: option.splits)

lemma update_company_config_miss:
  assumes "cache st (UpsertConfig c k v) = None"
    and "update_company_config st c k v = (True, st')"
  shows "st' = st\<lparr>company_configs := (company_configs st)((c, k) \<mapsto> v),
                 cache := (cache st)(UpsertConfig c k v \<mapsto> Count 1)\<rparr> \<and> online st"
  using assms
  by (auto simp: update_company_config_def connector_query_def execute_def
      split: if_splits)

lemma well_shaped_lookup:
  assumes "well_shaped cfg"
  shows "\<exists>j. schema_for_validation cfg dt = Inr j"
proof (cases cfg)
  case None
  then show ?thesis by (simp add: schema_for_validation_def)
next
  case (Some sc)
  show ?thesis
  proof (cases "map_of sc ''mappings''")
    case None
    with Some show ?thesis by (simp add: schema_for_validation_def)
  next
    case (Some m)
    with assms \<open>cfg = Some sc\<close> obtain kvs where "m = JObj kvs"
      by (cases m) (simp_all add: well_shaped_def)
    with Some \<open>cfg = Some sc\<close> show ?thesis by (simp add: schema_for_validation_def)
  qed
qed

lemma validate_data_fst:
  "fst (validate_data to_dt st df cid dt) =
    (case schema_for_validation (fst (get_company_config st cid ''schema'')) dt of
       Inl e \<Rightarrow> Inl e
     | Inr j \<Rightarrow> collect_errors to_dt df dt)"
  by (simp add: validate_data_def split: prod.splits sum.splits)


lemma validate_data_well_shaped:
  assumes "well_shaped (fst (get_company_config st cid ''schema''))"
  shows "fst (validate_data to_dt st df cid dt) = collect_errors to_dt df dt"
  using well_shaped_lookup [OF assms, of dt] by (auto simp: validate_data_fst)

lemma build_column_mapping_keeps:
  assumes "build_column_mapping cols items acc = Inr cm"
    and "\<not> list_ex (\<lambda>kv. snd kv = JStr ''company_id'' \<and> fst kv \<noteq> ''company_id'') items"
    and "map_of acc ''company_id'' = None"
  shows "map_of cm ''company_id'' = None"
  using assms
proof (induction cols items acc rule: build_column_mapping.induct)
  case (1 cols acc)
  then show ?case by simp
next
  case (2 cols standard_col company_col rest acc)
  show ?case
  proof (cases company_col)
    case (JStr c)
    let ?acc = "if c \<in> set cols \<and> standard_col \<noteq> c then AList.update c standard_col acc else acc"
    from "2.prems"(1) JStr have b: "build_column_mapping cols rest ?acc = Inr cm" by simp
    from "2.prems"(2) have r: "\<not> list_ex (\<lambda>kv. snd kv = JStr ''company_id'' \<and> fst kv \<noteq> ''company_id'') rest"
      by simp
    from "2.prems"(2) JStr have "c = ''company_id'' \<longrightarrow> standard_col = c" by auto
    with "2.prems"(3) have a: "map_of ?acc ''company_id'' = None"
      by (auto simp: update_conv')
    from "2.IH"(4) [OF JStr b r a] show ?thesis .
  next
    case JNull
    with "2.prems" "2.IH"(1) show ?thesis by simp
  next
    case (JBool b)
    with "2.prems" "2.IH"(2) show ?thesis by simp
  next
    case (JNum n)
    with "2.prems" "2.IH"(3) show ?thesis by simp
  next
    case (JArr xs)
    with "2.prems" show ?thesis by simp
  next
    case (JObj kvs)
    with "2.prems" show ?thesis by simp
  qed
qed

lemma rename_columns_keeps:
  assumes "map_of cm ''company_id'' = None"
  shows "length (rename_columns cm df) = length df"
    and "map snd (rename_columns cm df) = map snd df"
    and "i < length df \<Longrightarrow> fst (df ! i) = ''company_id'' \<Longrightarrow> rename_columns cm df ! i = df ! i"
  using assms by (simp_all add: rename_columns_def comp_def prod_eq_iff)

lemma add_company_id_present:
  "''company_id'' \<in> set (columns df) \<Longrightarrow> add_company_id df cid = df"
  by (simp add: add_company_id_def)

lemma transform_snd:
  "snd (transform_company_data st df cid dt) = snd (get_company_config st cid ''schema'')"
  by (simp add: transform_company_data_def get_company_schema_mapping_def
      split: prod.splits sum.splits option.splits)

text \<open>The early return of \<open>transform_company_data\<close>: with an empty or absent mapping
  the frame is returned as it is, whatever it holds.\<close>

lemma transform_empty_mapping_returns_input:
  assumes "mapping_empty_or_absent (fst (get_company_config st cid ''schema'')) dt"
  shows "fst (transform_company_data st df cid dt) = Inr df"
proof -
  obtain cfg st' where g: "get_company_config st cid ''schema'' = (cfg, st')"
    by (cases "get_company_config st cid ''schema''")
  with assms have m: "mapping_empty_or_absent cfg dt" by simp
  have "\<exists>mp. fst (get_company_schema_mapping st cid dt) = Inr mp \<and> \<not> truthy mp"
  proof (cases cfg)
    case None
    with g show ?thesis by (simp add: get_company_schema_mapping_def)
  next
    case (Some sc)
    show ?thesis
    proof (cases "map_of sc ''mappings''")
      case None
      then have "''mappings'' \<notin> set (map fst sc)" by (simp add: map_of_eq_None_iff)
      with g Some show ?thesis by (simp add: get_company_schema_mapping_def)
    next
      case (Some v)
      with m \<open>cfg = Some sc\<close> obtain kvs where v: "v = JObj kvs"
        by (cases v) (simp_all add: mapping_empty_or_absent_def)
      from Some have "(''mappings'', v) \<in> set sc" by (rule map_of_SomeD)
      then have k: "''mappings'' \<in> set (map fst sc)" and ne: "sc \<noteq> []"
        by force+
      from m \<open>cfg = Some sc\<close> Some v
      have "case map_of kvs dt of None \<Rightarrow> True | Some w \<Rightarrow> \<not> truthy w"
        by (simp add: mapping_empty_or_absent_def)
      with g \<open>cfg = Some sc\<close> Some v k ne show ?thesis
        by (auto simp: get_company_schema_mapping_def split: option.splits)
    qed
  qed
  then show ?thesis
    by (auto simp: transform_company_data_def split: prod.splits)
qed

section \<open>Lemmas about the validator\<close>

lemma getcol_Absent_iff: "getcol df col = Absent \<longleftrightarrow> col \<notin> set (columns df)"
proof -
  have "filter (\<lambda>c. fst c = col) df = [] \<longleftrightarrow> col \<notin> set (columns df)"
    by (auto simp: filter_empty_conv columns_def)
  then show ?thesis
    by (auto simp: getcol_def split: list.splits)
qed

lemma series_any_number_like: "number_like s \<Longrightarrow> \<exists>b. series_any p s = Inr b"
  by (cases s) auto

lemma compare_any_comparable:
  "comparable_col df col \<Longrightarrow> \<exists>b. compare_any p (getcol df col) = Inr b"
  by (cases "getcol df col") (auto simp: comparable_col_def dest: series_any_number_like)

lemma check_positive_Inr:
  "check_positive df cols = Inr es \<Longrightarrow> es = concat (map (negative_error df) cols)"
proof (induction cols arbitrary: es)
  case Nil
  then show ?case by simp
next
  case (Cons col cols)
  show ?case
  proof (cases "col \<in> set (columns df)")
    case True
    with Cons.prems obtain b es' where b: "compare_any (\<lambda>v. v < 0) (getcol df col) = Inr b"
      and r: "check_positive df cols = Inr es'"
      and e: "es = (if b then [Contains_negative_values col] else []) @ es'"
      by (auto split: sum.splits)
    from Cons.IH [OF r] b e show ?thesis by (simp add: negative_error_def)
  next
    case False
    then have "getcol df col = Absent" by (simp add: getcol_Absent_iff)
    then have "negative_error df col = []" by (simp add: negative_error_def)
    with False Cons show ?thesis by simp
  qed
qed

lemma check_positive_comparable:
  "list_all (comparable_col df) cols \<Longrightarrow> \<exists>es. check_positive df cols = Inr es"
proof (induction cols)
  case Nil
  then show ?case by simp
next
  case (Cons col cols)
  then obtain es where "check_positive df cols = Inr es" by auto
  moreover from Cons.prems obtain b where "compare_any (\<lambda>v. v < 0) (getcol df col) = Inr b"
    using compare_any_comparable [of df col] by auto
  ultimately show ?case by simp
qed

lemma check_percentage_comparable:
  "list_all (comparable_col df) cols \<Longrightarrow> \<exists>es. check_percentage df cols = Inr es"
proof (induction cols)
  case Nil
  then show ?case by simp
next
  case (Cons col cols)
  then obtain es where "check_percentage df cols = Inr es" by auto
  moreover from Cons.prems obtain b where "compare_any (\<lambda>v. v < 0) (getcol df col) = Inr b"
    using compare_any_comparable [of df col] by auto
  moreover from Cons.prems obtain b' where "compare_any (\<lambda>v. 100 < v) (getcol df col) = Inr b'"
    using compare_any_comparable [of df col] by auto
  ultimately show ?case by simp
qed





lemma collect_errors_comparable:
  assumes "comparable df dt"
  shows "\<exists>pct. check_percentage df (lookup_list percentage_columns dt) = Inr pct
    \<and> collect_errors to_dt df dt =
      Inr \<lparr>valid = ((if missing_columns df dt \<noteq> [] then [Missing_required_columns (missing_columns df dt)] else [])
                @ validate_data_types to_dt df dt
                @ concat (map (negative_error df) (lookup_list positive_columns dt))
                @ check_date_range to_dt df @ pct = []),
           errors = (if missing_columns df dt \<noteq> [] then [Missing_required_columns (missing_columns df dt)] else [])
                @ validate_data_types to_dt df dt
                @ concat (map (negative_error df) (lookup_list positive_columns dt))
                @ check_date_range to_dt df @ pct\<rparr>"
proof -
  from assms have a: "list_all (comparable_col df) (lookup_list positive_columns dt)"
    and b: "list_all (comparable_col df) (lookup_list percentage_columns dt)"
    by (simp_all add: comparable_def)
  from check_positive_comparable [OF a] obtain neg where
    neg: "check_positive df (lookup_list positive_columns dt) = Inr neg" by auto
  from check_percentage_comparable [OF b] obtain pct where
    pct: "check_percentage df (lookup_list percentage_columns dt) = Inr pct" by auto
  from check_positive_Inr [OF neg] neg pct show ?thesis
    by (simp add: collect_errors_def validate_business_rules_def Let_def)
qed




lemma validate_data_returns:
  assumes "well_shaped (fst (get_company_config st cid ''schema''))" and "comparable df dt"
  shows "\<exists>pct. check_percentage df (lookup_list percentage_columns dt) = Inr pct
    \<and> fst (validate_data to_dt st df cid dt) =
      Inr \<lparr>valid = ((if missing_columns df dt \<noteq> [] then [Missing_required_columns (missing_columns df dt)] else [])
                @ validate_data_types to_dt df dt
                @ concat (map (negative_error df) (lookup_list positive_columns dt))
                @ check_date_range to_dt df @ pct = []),
           errors = (if missing_columns df dt \<noteq> [] then [Missing_required_columns (missing_columns df dt)] else [])
                @ validate_data_types to_dt df dt
                @ concat (map (negative_error df) (lookup_list positive_columns dt))
                @ check_date_range to_dt df @ pct\<rparr>"
  using collect_errors_comparable [OF assms(2), of to_dt] validate_data_well_shaped [OF assms(1), of to_dt df dt]
  by simp




















lemma series_any_Inr_number_like: "series_any p s = Inr b \<Longrightarrow> number_like s"
  by (cases s) (auto split: if_splits)

lemma compare_any_Inr_comparable:
  "compare_any p (getcol df col) = Inr b \<Longrightarrow> comparable_col df col"
  by (cases "getcol df col")
     (auto simp: comparable_col_def dest: series_any_Inr_number_like split: if_splits)

lemma check_positive_Inr_comparable:
  "check_positive df cols = Inr es \<Longrightarrow> list_all (comparable_col df) cols"
proof (induction cols arbitrary: es)
  case Nil
  then show ?case by simp
next
  case (Cons col cols)
  show ?case
  proof (cases "col \<in> set (columns df)")
    case True
    with Cons.prems obtain b es' where "compare_any (\<lambda>v. v < 0) (getcol df col) = Inr b"
      and "check_positive df cols = Inr es'"
      by (auto split: sum.splits)
    with Cons.IH show ?thesis by (auto dest: compare_any_Inr_comparable)
  next
    case False
    then have "getcol df col = Absent" by (simp add: getcol_Absent_iff)
    then have "comparable_col df col" by (simp add: comparable_col_def)
    with False Cons show ?thesis by simp
  qed
qed

lemma check_percentage_Inr_comparable:
  "check_percentage df cols = Inr es \<Longrightarrow> list_all (comparable_col df) cols"
proof (induction cols arbitrary: es)
  case Nil
  then show ?case by simp
next
  case (Cons col cols)
  show ?case
  proof (cases "col \<in> set (columns df)")
    case True
    with Cons.prems obtain b es' where "compare_any (\<lambda>v. v < 0) (getcol df col) = Inr b"
      and "check_percentage df cols = Inr es'"
      by (auto split: sum.splits if_splits)
    with Cons.IH show ?thesis by (auto dest: compare_any_Inr_comparable)
  next
    case False
    then have "getcol df col = Absent" by (simp add: getcol_Absent_iff)
    then have "comparable_col df col" by (simp add: comparable_col_def)
    with False Cons show ?thesis by simp
  qed
qed

lemma lookup_Inr_well_shaped:
  assumes "schema_for_validation cfg dt = Inr j"
  shows "well_shaped cfg"
proof (cases cfg)
  case None
  then show ?thesis by (simp add: well_shaped_def)
next
  case (Some sc)
  show ?thesis
  proof (cases "map_of sc ''mappings''")
    case None
    with Some show ?thesis by (simp add: well_shaped_def)
  next
    case (Some m)
    then have "(''mappings'', m) \<in> set sc" by (rule map_of_SomeD)
    then have "''mappings'' \<in> set (map fst sc)" and "sc \<noteq> []" by force+
    with assms Some \<open>cfg = Some sc\<close> have "get_method m dt (JObj []) = Inr j"
      by (simp add: schema_for_validation_def)
    then obtain kvs where "m = JObj kvs" by (cases m) simp_all
    with Some \<open>cfg = Some sc\<close> show ?thesis by (simp add: well_shaped_def)
  qed
qed

text \<open>\<open>validate_data\<close> returns a result exactly on a well-shaped schema config and a
  comparable frame; otherwise it raises.\<close>

lemma validate_data_returns_iff:
  "(\<exists>r. fst (validate_data to_dt st df cid dt) = Inr r)
    \<longleftrightarrow> well_shaped (fst (get_company_config st cid ''schema'')) \<and> comparable df dt"
proof
  assume "\<exists>r. fst (validate_data to_dt st df cid dt) = Inr r"
  then obtain r j where j: "schema_for_validation (fst (get_company_config st cid ''schema'')) dt = Inr j"
    and c: "collect_errors to_dt df dt = Inr r"
    by (auto simp: validate_data_fst split: sum.splits)
  from c obtain neg pct where "check_positive df (lookup_list positive_columns dt) = Inr neg"
    and "check_percentage df (lookup_list percentage_columns dt) = Inr pct"
    by (auto simp: collect_errors_def validate_business_rules_def Let_def split: sum.splits)
  then have "comparable df dt"
    by (auto simp: comparable_def dest: check_positive_Inr_comparable check_percentage_Inr_comparable)
  with lookup_Inr_well_shaped [OF j]
  show "well_shaped (fst (get_company_config st cid ''schema'')) \<and> comparable df dt" by simp
next
  assume "well_shaped (fst (get_company_config st cid ''schema'')) \<and> comparable df dt"
  then show "\<exists>r. fst (validate_data to_dt st df cid dt) = Inr r"
    using validate_data_returns [of st cid df dt to_dt] by blast
qed

section \<open>Schema mapping\<close>

text \<open>
  C1, evaluated on the code. A tenant created with industry Manufacturing has no mapping
  for category \<open>supply_chain\<close> (the defaults cover \<open>sales\<close> and \<open>esg\<close> only), so
  \<open>transform_company_data\<close> takes its early return: the frame comes back as it was
  given, and no column \<open>company_id\<close> is added.
\<close>

theorem transform_without_mapping_untagged:
  "fst (transform_company_data
         (snd (create_company empty_store ''acme'' ''Acme'' (Some ''Manufacturing'') None None))
         [(''date'', DateS [Some 1700000000000000000]), (''supplier'', TextS [Some ''S1'']),
          (''order_quantity'', NumS [Some 5]), (''order_value'', NumS [Some 10])]
         ''acme'' ''supply_chain'')
   = Inr [(''date'', DateS [Some 1700000000000000000]), (''supplier'', TextS [Some ''S1'']),
          (''order_quantity'', NumS [Some 5]), (''order_value'', NumS [Some 10])]"
  by (simp add: registry_defs)

text \<open>
  C2, evaluated on the code. For a tenant created with industry Manufacturing the seeded
  product lines are Electronics, Automotive, Machinery and Textiles. The seeded sales
  mapping has the keys \<open>product_column\<close>, \<open>region_column\<close>, \<open>customer_column\<close>, ...,
  and \<open>transform_company_data\<close> renames a column to the key of its entry: the frame of
  the repository's own schema-mapping test comes back with \<open>product_category\<close> renamed
  to \<open>product_column\<close> (not \<open>product_line\<close>), \<open>location\<close> to \<open>region_column\<close>,
  \<open>client_type\<close> to \<open>customer_column\<close>, and \<open>date\<close>, \<open>units_sold\<close>, \<open>revenue\<close>
  renamed as well.
\<close>

theorem manufacturing_defaults_rename_to_role_keys:
  "get_default_products (Some ''Manufacturing'')
     = [''Electronics'', ''Automotive'', ''Machinery'', ''Textiles'']
   \<and> fst (get_company_config
            (snd (create_company empty_store ''acme'' ''Acme'' (Some ''Manufacturing'') None None))
            ''acme'' ''products'')
     = Some [(''product_lines'',
              JArr [JStr ''Electronics'', JStr ''Automotive'', JStr ''Machinery'', JStr ''Textiles''])]
   \<and> fst (transform_company_data
            (snd (create_company empty_store ''acme'' ''Acme'' (Some ''Manufacturing'') None None))
            [(''product_category'', TextS [Some ''Electronics'', Some ''Automotive'']),
             (''location'', TextS [Some ''North America'', Some ''Europe'']),
             (''client_type'', TextS [Some ''Wholesale'', Some ''Retail'']),
             (''date'', TextS [Some ''2023-01-01'', Some ''2023-01-02'']),
             (''units_sold'', NumS [Some 100, Some 200]),
             (''revenue'', NumS [Some 1000, Some 2000])]
            ''acme'' ''sales'')
     = Inr [(''product_column'', TextS [Some ''Electronics'', Some ''Automotive'']),
            (''region_column'', TextS [Some ''North America'', Some ''Europe'']),
            (''customer_column'', TextS [Some ''Wholesale'', Some ''Retail'']),
            (''date_column'', TextS [Some ''2023-01-01'', Some ''2023-01-02'']),
            (''quantity_column'', NumS [Some 100, Some 200]),
            (''revenue_column'', NumS [Some 1000, Some 2000]),
            (''company_id'', TextS [Some ''acme'', Some ''acme''])]"
  by (simp add: registry_defs)

text \<open>
  C10 fails as stated: with a mapping entry whose tenant-specific name is \<open>company_id\<close>,
  the existing column is renamed and a new column \<open>company_id\<close> holding the tenant
  argument is appended.
\<close>

theorem existing_company_id_overwritten_counterexample:
  "fst (transform_company_data
          (snd (update_company_config empty_store ''acme'' ''schema''
                  [(''mappings'', JObj [(''sales'', JObj [(''tenant'', JStr ''company_id'')])])]))
          [(''company_id'', TextS [Some ''globex'']), (''revenue'', NumS [Some 10])]
          ''acme'' ''sales'')
   = Inr [(''tenant'', TextS [Some ''globex'']), (''revenue'', NumS [Some 10]),
          (''company_id'', TextS [Some ''acme''])]"
  by (simp add: registry_defs)

text \<open>
  C10, amended. If the input frame has a column \<open>company_id\<close>, the tenant's mapping for
  the category has no entry that gives \<open>company_id\<close> another name, and
  \<open>transform_company_data\<close> returns a frame, then that frame has the same number of
  columns with the same values, and every column labelled \<open>company_id\<close> is returned
  unchanged at its position: nothing is overwritten and nothing is appended, whatever the
  tenant argument is.
\<close>

theorem existing_company_id_kept:
  assumes present: "''company_id'' \<in> set (columns df)"
    and mapping: "fst (get_company_schema_mapping st cid dt) = Inr mapping"
    and norename: "\<not> renames_company_id mapping"
    and out: "fst (transform_company_data st df cid dt) = Inr out"
  shows "length out = length df \<and> map snd out = map snd df
    \<and> (\<forall>i<length df. fst (df ! i) = ''company_id'' \<longrightarrow> out ! i = df ! i)"
proof (cases "truthy mapping")
  case False
  with mapping out have "out = df"
    by (auto simp: transform_company_data_def split: prod.splits)
  then show ?thesis by simp
next
  case True
  from mapping out True obtain items cm where
    items: "items_method mapping = Inr items"
    and cm: "build_column_mapping (columns df) items [] = Inr cm"
    and o: "out = add_company_id (if cm \<noteq> [] then rename_columns cm df else df) cid"
    by (auto simp: transform_company_data_def split: prod.splits sum.splits)
  from items have m: "mapping = JObj items" by (cases mapping) simp_all
  with norename have
    "\<not> list_ex (\<lambda>kv. snd kv = JStr ''company_id'' \<and> fst kv \<noteq> ''company_id'') items"
    by (simp add: renames_company_id_def)
  from build_column_mapping_keeps [OF cm this] have k: "map_of cm ''company_id'' = None" by simp
  let ?r = "if cm \<noteq> [] then rename_columns cm df else df"
  have len: "length ?r = length df" and vals: "map snd ?r = map snd df"
    and same: "\<And>i. i < length df \<Longrightarrow> fst (df ! i) = ''company_id'' \<Longrightarrow> ?r ! i = df ! i"
    using rename_columns_keeps [OF k] by simp_all
  from present obtain i where i: "i < length df" "fst (df ! i) = ''company_id''"
    by (auto simp: columns_def in_set_conv_nth)
  with same [OF i] len have "fst (?r ! i) = ''company_id''" "i < length ?r" by simp_all
  then have "''company_id'' \<in> set (columns ?r)"
    unfolding columns_def by (metis nth_map length_map nth_mem)
  then have "add_company_id ?r cid = ?r" by (rule add_company_id_present)
  with o have "out = ?r" by simp
  with len vals same show ?thesis by simp
qed

text \<open>C10, an instance: the seeded Manufacturing mapping applied to a frame tagged with
  another tenant.\<close>

theorem existing_company_id_kept_witness:
  "fst (transform_company_data
          (snd (create_company empty_store ''acme'' ''Acme'' (Some ''Manufacturing'') None None))
          [(''company_id'', TextS [Some ''globex'']), (''location'', TextS [Some ''Europe''])]
          ''acme'' ''sales'')
     = Inr [(''company_id'', TextS [Some ''globex'']), (''region_column'', TextS [Some ''Europe''])]
   \<and> [(''company_id'', TextS [Some ''globex'']), (''region_column'', TextS [Some ''Europe''])] ! 0
     = [(''company_id'', TextS [Some ''globex'']), (''location'', TextS [Some ''Europe''])] ! 0"
proof -
  let ?st = "snd (create_company empty_store ''acme'' ''Acme'' (Some ''Manufacturing'') None None)"
  let ?df = "[(''company_id'', TextS [Some ''globex'']), (''location'', TextS [Some ''Europe''])]"
  let ?m = "JObj [(''product_column'', JStr ''product_category''),
        (''region_column'', JStr ''location''),
        (''customer_column'', JStr ''client_type''), (''date_column'', JStr ''date''),
        (''quantity_column'', JStr ''units_sold''),
        (''revenue_column'', JStr ''revenue''),
        (''cost_column'', JStr ''cost_of_goods'')]"
  have p: "''company_id'' \<in> set (columns ?df)" by (simp add: columns_def)
  have m: "fst (get_company_schema_mapping ?st ''acme'' ''sales'') = Inr ?m"
    by (simp add: registry_defs)
  have n: "\<not> renames_company_id ?m" by (simp add: renames_company_id_def)
  have o: "fst (transform_company_data ?st ?df ''acme'' ''sales'')
     = Inr [(''company_id'', TextS [Some ''globex'']), (''region_column'', TextS [Some ''Europe''])]"
    by (simp add: registry_defs)
  from existing_company_id_kept [OF p m n o] o show ?thesis by simp
qed

section \<open>Industry defaults\<close>




section \<open>Configuration round trip\<close>

text \<open>
  C7 fails as stated: a read of \<open>(tenant, kind)\<close> leaves its (empty) result in the
  cache of the connection; the write that follows succeeds, and the read right after it
  is answered from the cache: it returns \<open>None\<close>, not the value written. Writes are
  cached too: writing Widgets, then Gadgets, then Widgets again, the third write is
  answered from the cache without being executed; it reports success, and the read
  after it returns Gadgets.
\<close>



theorem config_roundtrip_stale_counterexample:
  "fst (update_company_config (snd (get_company_config empty_store ''acme'' ''products''))
          ''acme'' ''products'' [(''product_lines'', JArr [JStr ''Widgets''])]) = True
   \<and> fst (get_company_config
            (snd (update_company_config (snd (get_company_config empty_store ''acme'' ''products''))
                    ''acme'' ''products'' [(''product_lines'', JArr [JStr ''Widgets''])]))
            ''acme'' ''products'') = None
   \<and> fst (update_company_config
            (snd (update_company_config
                    (snd (update_company_config empty_store ''acme'' ''products''
                            [(''product_lines'', JArr [JStr ''Widgets''])]))
                    ''acme'' ''products'' [(''product_lines'', JArr [JStr ''Gadgets''])]))
            ''acme'' ''products'' [(''product_lines'', JArr [JStr ''Widgets''])]) = True
   \<and> fst (get_company_config
            (snd (update_company_config
                    (snd (update_company_config
                            (snd (update_company_config empty_store ''acme'' ''products''
                                    [(''product_lines'', JArr [JStr ''Widgets''])]))
                            ''acme'' ''products'' [(''product_lines'', JArr [JStr ''Gadgets''])]))
                    ''acme'' ''products'' [(''product_lines'', JArr [JStr ''Widgets''])]))
            ''acme'' ''products'') = Some [(''product_lines'', JArr [JStr ''Gadgets''])]"
  by (simp add: registry_defs)

text \<open>
  C7, amended. If \<open>update_company_config\<close> succeeds on \<open>(tenant, kind, X)\<close> and the
  cache of the connection holds no unexpired entry for this write nor for the read of
  \<open>(tenant, kind)\<close>, then \<open>get_company_config\<close> right afterwards returns \<open>X\<close>, and
  \<open>X\<close> is the value stored for the pair, whatever was stored before.
\<close>

theorem config_roundtrip:
  assumes "update_company_config st c k X = (True, st')"
    and "cache st (UpsertConfig c k X) = None"
    and "cache st (SelectConfig c k) = None"
  shows "fst (get_company_config st' c k) = Some X \<and> company_configs st' (c, k) = Some X"
proof -
  from update_company_config_miss [OF assms(2) assms(1)]
  have st': "st' = st\<lparr>company_configs := (company_configs st)((c, k) \<mapsto> X),
                 cache := (cache st)(UpsertConfig c k X \<mapsto> Count 1)\<rparr>" and on: "online st"
    by simp_all
  from st' on have "online st'" by simp
  moreover from st' assms(3) have "cache st' (SelectConfig c k) = None" by simp
  ultimately have "fst (get_company_config st' c k) = company_configs st' (c, k)"
    by (rule get_company_config_miss)
  moreover from st' have "company_configs st' (c, k) = Some X" by simp
  ultimately show ?thesis by simp
qed

text \<open>C7, an instance: a first write to the new store, then a read.\<close>

theorem config_roundtrip_witness:
  "fst (get_company_config
         (snd (update_company_config empty_store ''acme'' ''products''
                 [(''product_lines'', JArr [JStr ''Widgets''])]))
         ''acme'' ''products'')
   = Some [(''product_lines'', JArr [JStr ''Widgets''])]"
proof -
  have u: "update_company_config empty_store ''acme'' ''products''
             [(''product_lines'', JArr [JStr ''Widgets''])]
           = (True, snd (update_company_config empty_store ''acme'' ''products''
                 [(''product_lines'', JArr [JStr ''Widgets''])]))"
    by (simp add: update_company_config_def connector_query_def execute_def empty_store_def)
  have c1: "cache empty_store
             (UpsertConfig ''acme'' ''products'' [(''product_lines'', JArr [JStr ''Widgets''])]) = None"
    by (simp add: empty_store_def)
  have c2: "cache empty_store (SelectConfig ''acme'' ''products'') = None"
    by (simp add: empty_store_def)
  from config_roundtrip [OF u c1 c2] show ?thesis by simp
qed

section \<open>Validation and the tenant\<close>

text \<open>
  C9 fails as stated: when the schema config stored for a tenant has a member
  \<open>mappings\<close> that is not a dict (here \<open>null\<close>), the lookup at the head of
  \<open>validate_data\<close> raises \<open>AttributeError\<close> for that tenant, while the same frame
  and category give a validation result for another tenant.
\<close>

theorem validate_tenant_dependent_counterexample:
  "fst (validate_data datetime_only
          (snd (update_company_config empty_store ''t1'' ''schema'' [(''mappings'', JNull)]))
          [] ''t1'' ''sales'') = Inl AttributeError
   \<and> fst (validate_data datetime_only
          (snd (update_company_config empty_store ''t1'' ''schema'' [(''mappings'', JNull)]))
          [] ''t2'' ''sales'')
     = Inr \<lparr>valid = False,
            errors = [Missing_required_columns [''date'', ''product_line'', ''units_sold'', ''revenue'']]\<rparr>"
  by (simp add: registry_defs validate_data_def schema_for_validation_def collect_errors_def
      missing_columns_def get_required_columns_def required_columns_def validate_data_types_def
      type_validations_def check_type_def validate_business_rules_def lookup_list_def
      positive_columns_def percentage_columns_def check_date_range_def)

text \<open>
  C9, amended. For every frame and category and any two tenants whose schema config, as
  \<open>get_company_config\<close> returns it, is absent or has a dict (or no) member
  \<open>mappings\<close>, \<open>validate_data\<close> gives the same outcome for both tenants: the same
  \<open>valid\<close> flag and error list, or the same exception.
\<close>

theorem validate_tenant_independent:
  assumes "well_shaped (fst (get_company_config st t1 ''schema''))"
    and "well_shaped (fst (get_company_config st t2 ''schema''))"
  shows "fst (validate_data to_dt st df t1 dt) = fst (validate_data to_dt st df t2 dt)"
  by (simp add: validate_data_well_shaped [OF assms(1)] validate_data_well_shaped [OF assms(2)])

text \<open>C9, an instance: a tenant with the seeded Manufacturing config and a tenant without
  any config.\<close>

theorem validate_tenant_independent_witness:
  "fst (validate_data datetime_only
          (snd (create_company empty_store ''acme'' ''Acme'' (Some ''Manufacturing'') None None))
          [(''revenue'', NumS [Some (- 5)])] ''acme'' ''sales'')
   = fst (validate_data datetime_only
          (snd (create_company empty_store ''acme'' ''Acme'' (Some ''Manufacturing'') None None))
          [(''revenue'', NumS [Some (- 5)])] ''globex'' ''sales'')"
proof -
  let ?st = "snd (create_company empty_store ''acme'' ''Acme'' (Some ''Manufacturing'') None None)"
  have a: "well_shaped (fst (get_company_config ?st ''acme'' ''schema''))"
    by (simp add: registry_defs well_shaped_def)
  have b: "well_shaped (fst (get_company_config ?st ''globex'' ''schema''))"
    by (simp add: registry_defs well_shaped_def)
  from validate_tenant_independent [OF a b] show ?thesis .
qed

section \<open>Validation rules\<close>










section \<open>Upload of an invalid dataset\<close>



end
